theory Spec2Isabelle
  imports Complex_Main
begin

section \<open>Numbers\<close>

text \<open>
  JavaScript numbers are read as real numbers: rounding is not modelled. A division is by
  a number that is not zero wherever a theorem depends on its value (a viewport of
  positive size, a valid camera), except in the perspective divide of \<open>project\<close>
  below, where the case of a zero divisor is written out. \<open>Math.atan2 y x\<close> is the angle
  of the point \<open>(x, y)\<close> in \<open>(-\<pi>, \<pi>]\<close>, with \<open>Math.atan2 0 0 = 0\<close>. \<open>Math.asin\<close> is
  \<open>arcsin\<close>; it is only ever applied to a component of a unit vector.
\<close>

definition atan2 :: "real \<Rightarrow> real \<Rightarrow> real" where
  "atan2 b a =
     (if 0 < a then arctan (b / a)
      else if a < 0 then (if 0 \<le> b then arctan (b / a) + pi else arctan (b / a) - pi)
      else if 0 < b then pi / 2
      else if b < 0 then - (pi / 2)
      else 0)"

section \<open>Vectors and the camera\<close>

text \<open>
  Modelled from the spec: the vectors and the camera are \<open>THREE.Vector3\<close> and
  \<open>THREE.PerspectiveCamera\<close> of the three.js library, which is not among the
  repository's sources. The spec says that a ray is cast "from the camera through that
  point using the camera's current projection" and that a direction is projected
  "through the current camera to clip space"; the definitions of this section spell that
  out the way the library computes it (\<open>Vector3.normalize\<close>, \<open>Vector3.project\<close>,
  \<open>Vector3.unproject\<close>, \<open>Raycaster.setFromCamera\<close>, and the projection matrix of
  \<open>PerspectiveCamera.updateProjectionMatrix\<close>).

  The player creates the camera as \<open>new THREE.PerspectiveCamera(75, width / height, 0.1,
  1000)\<close>, keeps it at the origin and only ever turns it with \<open>lookAt\<close>. So a camera is
  its vertical field of view in degrees, its aspect ratio, its near and far planes, and
  the rotation part of its world matrix: the three columns are the camera's right, up
  and backward axes in world coordinates (the camera looks down its local negative z
  axis). The zoom factor is the library's default 1.
\<close>

datatype Vector3 = Vector3 (vecX: real) (vecY: real) (vecZ: real)

definition dot :: "Vector3 \<Rightarrow> Vector3 \<Rightarrow> real" where
  "dot u v = vecX u * vecX v + vecY u * vecY v + vecZ u * vecZ v"

definition vecLength :: "Vector3 \<Rightarrow> real" where
  "vecLength v = sqrt (vecX v * vecX v + vecY v * vecY v + vecZ v * vecZ v)"

text \<open>\<open>Vector3.normalize\<close> divides by \<open>length() || 1\<close>: the zero vector stays as it is.\<close>

definition vecNormalize :: "Vector3 \<Rightarrow> Vector3" where
  "vecNormalize v =
     (let l = vecLength v; s = (if l = 0 then 1 else l)
      in Vector3 (vecX v / s) (vecY v / s) (vecZ v / s))"

text \<open>A unit vector, without the square root.\<close>

definition unitLength :: "Vector3 \<Rightarrow> bool" where
  "unitLength v \<longleftrightarrow> vecX v * vecX v + vecY v * vecY v + vecZ v * vecZ v = 1"

datatype Matrix3 = Matrix3 (colX: Vector3) (colY: Vector3) (colZ: Vector3)

record PerspectiveCamera =
  fov :: real
  aspect :: real
  near :: real
  far :: real
  matrixWorld :: Matrix3

definition identityPose :: Matrix3 where
  "identityPose = Matrix3 (Vector3 1 0 0) (Vector3 0 1 0) (Vector3 0 0 1)"

text \<open>The axes of a camera turned by \<open>lookAt\<close> are orthonormal.\<close>

definition orthonormal :: "Matrix3 \<Rightarrow> bool" where
  "orthonormal m \<longleftrightarrow>
     dot (colX m) (colX m) = 1 \<and> dot (colY m) (colY m) = 1 \<and> dot (colZ m) (colZ m) = 1 \<and>
     dot (colX m) (colY m) = 0 \<and> dot (colX m) (colZ m) = 0 \<and> dot (colY m) (colZ m) = 0"

definition validCamera :: "PerspectiveCamera \<Rightarrow> bool" where
  "validCamera cam \<longleftrightarrow>
     0 < fov cam \<and> fov cam < 180 \<and> 0 < aspect cam \<and> 0 < near cam \<and> near cam < far cam \<and>
     orthonormal (matrixWorld cam)"

text \<open>
  \<open>applyMatrixWorld\<close> takes camera coordinates to world coordinates, and
  \<open>applyMatrixWorldInverse\<close> back (the inverse of an orthonormal matrix is its
  transpose).
\<close>

definition applyMatrixWorld :: "Matrix3 \<Rightarrow> Vector3 \<Rightarrow> Vector3" where
  "applyMatrixWorld m c =
     Vector3 (vecX c * vecX (colX m) + vecY c * vecX (colY m) + vecZ c * vecX (colZ m))
             (vecX c * vecY (colX m) + vecY c * vecY (colY m) + vecZ c * vecY (colZ m))
             (vecX c * vecZ (colX m) + vecY c * vecZ (colY m) + vecZ c * vecZ (colZ m))"

definition applyMatrixWorldInverse :: "Matrix3 \<Rightarrow> Vector3 \<Rightarrow> Vector3" where
  "applyMatrixWorldInverse m v = Vector3 (dot (colX m) v) (dot (colY m) v) (dot (colZ m) v)"

text \<open>
  The projection matrix of \<open>updateProjectionMatrix\<close>: with
  \<open>top = near * tan (DEG2RAD * 0.5 * fov)\<close>, \<open>height = 2 * top\<close> and
  \<open>width = aspect * height\<close>, its entries are \<open>2 * near / width\<close>, \<open>2 * near / height\<close>,
  \<open>-(far + near) / (far - near)\<close> and \<open>-2 * far * near / (far - near)\<close>, and its last
  row is \<open>(0, 0, -1, 0)\<close>.
\<close>

definition frustumTop :: "PerspectiveCamera \<Rightarrow> real" where
  "frustumTop cam = near cam * tan (pi / 180 * (1 / 2) * fov cam)"

definition projX :: "PerspectiveCamera \<Rightarrow> real" where
  "projX cam = 2 * near cam / (aspect cam * (2 * frustumTop cam))"

definition projY :: "PerspectiveCamera \<Rightarrow> real" where
  "projY cam = 2 * near cam / (2 * frustumTop cam)"

definition projC :: "PerspectiveCamera \<Rightarrow> real" where
  "projC cam = - (far cam + near cam) / (far cam - near cam)"

definition projD :: "PerspectiveCamera \<Rightarrow> real" where
  "projD cam = - 2 * far cam * near cam / (far cam - near cam)"

text \<open>
  \<open>Vector3.project\<close> applies the inverse world matrix and then the projection matrix,
  dividing by the homogeneous coordinate \<open>w = -z\<close>. For a point in the camera's own
  plane (\<open>z = 0\<close>) JavaScript divides by zero and the clip coordinates are infinite;
  this is the result \<open>None\<close>.
\<close>

definition applyProjection :: "PerspectiveCamera \<Rightarrow> Vector3 \<Rightarrow> Vector3 option" where
  "applyProjection cam c =
     (let w = - vecZ c
      in if w = 0 then None
         else Some (Vector3 (projX cam * vecX c / w) (projY cam * vecY c / w)
                            ((projC cam * vecZ c + projD cam) / w)))"

definition project :: "PerspectiveCamera \<Rightarrow> Vector3 \<Rightarrow> Vector3 option" where
  "project cam v = applyProjection cam (applyMatrixWorldInverse (matrixWorld cam) v)"

text \<open>
  \<open>Vector3.unproject\<close> applies the inverse projection matrix, whose homogeneous
  coordinate for the clip point \<open>(a, b, g)\<close> is \<open>(g + projC) / projD\<close>, and then the
  world matrix. \<open>Raycaster.setFromCamera\<close> unprojects the pointer at depth \<open>0.5\<close>,
  subtracts the camera position (the origin) and normalizes.
\<close>

definition unproject :: "PerspectiveCamera \<Rightarrow> Vector3 \<Rightarrow> Vector3" where
  "unproject cam p =
     (let w = (vecZ p + projC cam) / projD cam
      in applyMatrixWorld (matrixWorld cam)
           (Vector3 (vecX p / projX cam / w) (vecY p / projY cam / w) (- 1 / w)))"

definition setFromCamera :: "real \<Rightarrow> real \<Rightarrow> PerspectiveCamera \<Rightarrow> Vector3" where
  "setFromCamera ndcX ndcY cam = vecNormalize (unproject cam (Vector3 ndcX ndcY (1 / 2)))"

section \<open>The spherical direction model\<close>

record WorldDirection =
  phi :: real
  theta :: real

record ScreenPoint =
  pointX :: real
  pointY :: real

record Box =
  boxX :: real
  boxY :: real
  boxWidth :: real
  boxHeight :: real

text \<open>
  \<open>screenToWorldDirection\<close> is declared to return a direction or \<open>null\<close>; the camera
  rotation it is passed is not used.
\<close>

definition screenToWorldDirection ::
  "real \<Rightarrow> real \<Rightarrow> real \<Rightarrow> real \<Rightarrow> PerspectiveCamera \<Rightarrow> WorldDirection \<Rightarrow> WorldDirection option"
where
  "screenToWorldDirection screenX screenY screenWidth screenHeight camera cameraRotation =
     (let ndcX = (screenX / screenWidth) * 2 - 1;
          ndcY = - (screenY / screenHeight) * 2 + 1;
          rayDirection = vecNormalize (setFromCamera ndcX ndcY camera)
      in Some \<lparr>phi = arcsin (vecY rayDirection),
               theta = atan2 (vecX rayDirection) (vecZ rayDirection)\<rparr>)"

text \<open>
  The vector \<open>direction\<close> that \<open>worldDirectionToScreen\<close> builds from the two angles and
  normalizes.
\<close>

definition directionVector :: "WorldDirection \<Rightarrow> Vector3" where
  "directionVector d =
     vecNormalize (Vector3 (cos (phi d) * sin (theta d)) (sin (phi d)) (cos (phi d) * cos (theta d)))"

text \<open>
  In \<open>worldDirectionToScreen\<close> a projection with infinite clip coordinates fails one
  of the two tests (a unit direction in the camera's plane has a non-zero x or y, whose
  clip coordinate is infinite), so \<open>null\<close> is returned.
\<close>

definition worldDirectionToScreen ::
  "WorldDirection \<Rightarrow> real \<Rightarrow> real \<Rightarrow> PerspectiveCamera \<Rightarrow> ScreenPoint option"
where
  "worldDirectionToScreen worldDirection screenWidth screenHeight camera =
     (case project camera (directionVector worldDirection) of
        None \<Rightarrow> None
      | Some v \<Rightarrow>
          (let x = (vecX v + 1) * screenWidth / 2;
               y = (- vecY v + 1) * screenHeight / 2
           in if vecZ v > 1 then None
              else if \<bar>vecX v\<bar> > 3 \<or> \<bar>vecY v\<bar> > 3 then None
              else Some \<lparr>pointX = x, pointY = y\<rparr>))"

definition legacyBoxToWorldDirection :: "Box \<Rightarrow> WorldDirection option \<Rightarrow> WorldDirection" where
  "legacyBoxToWorldDirection box cameraRotation =
     (let centerX = boxX box + boxWidth box / 2;
          centerY = boxY box + boxHeight box / 2;
          ndcX = (centerX - 1 / 2) * 2;
          ndcY = - (centerY - 1 / 2) * 2;
          fov = 75 * (pi / 180)
      in case cameraRotation of
           Some rot \<Rightarrow>
             (let cameraRelativeTheta = atan2 ndcX 1 * (fov / 2);
                  cameraRelativePhi = atan2 ndcY 1 * (fov / 2);
                  worldTheta = theta rot + cameraRelativeTheta;
                  worldPhi = phi rot + cameraRelativePhi
              in \<lparr>phi = max (- pi / 2) (min (pi / 2) worldPhi), theta = worldTheta\<rparr>)
         | None \<Rightarrow> \<lparr>phi = 0, theta = 0\<rparr>)"

definition getAnnotationBox ::
  "WorldDirection \<Rightarrow> real \<Rightarrow> real \<Rightarrow> PerspectiveCamera \<Rightarrow> real \<Rightarrow> Box option"
where
  "getAnnotationBox worldDirection screenWidth screenHeight camera boxSizeDegrees =
     (case worldDirectionToScreen worldDirection screenWidth screenHeight camera of
        None \<Rightarrow> None
      | Some center \<Rightarrow>
          (let fovRadians = fov camera * (pi / 180);
               pixelsPerRadian = screenHeight / (2 * tan (fovRadians / 2));
               boxSizeRadians = boxSizeDegrees * (pi / 180);
               boxSizePixels = boxSizeRadians * pixelsPerRadian;
               boxW = max 20 boxSizePixels;
               boxH = max 20 boxSizePixels
           in Some \<lparr>boxX = pointX center - boxW / 2, boxY = pointY center - boxH / 2,
                     boxWidth = boxW, boxHeight = boxH\<rparr>))"

text \<open>
  The player (Video360Player) turns the camera towards the point
  \<open>(cos phi * sin theta, sin phi, cos phi * cos theta)\<close> of its rotation state with
  \<open>camera.lookAt\<close>. The forward vector of a camera is the negated third column of its
  world matrix (\<open>getWorldDirection\<close>).
\<close>

definition lookTarget :: "WorldDirection \<Rightarrow> Vector3" where
  "lookTarget rot =
     Vector3 (cos (phi rot) * sin (theta rot)) (sin (phi rot)) (cos (phi rot) * cos (theta rot))"

definition cameraForward :: "PerspectiveCamera \<Rightarrow> Vector3" where
  "cameraForward cam =
     Vector3 (- vecX (colZ (matrixWorld cam))) (- vecY (colZ (matrixWorld cam)))
             (- vecZ (colZ (matrixWorld cam)))"

section \<open>Annotations\<close>

text \<open>
  The \<open>Annotation\<close> interface. A grade or DROPS score is a number or \<open>'N/A'\<close>; an
  optional field is an \<open>option\<close>. A camera rotation has the shape of a direction.
\<close>

type_synonym CameraRotation = WorldDirection

datatype Score = NA | Score real

text \<open>
  What has been drawn on a 2D canvas since it was last cleared: \<open>strokeRect\<close> with its
  stroke colour, line width and whether a line dash is set; \<open>fillRect\<close> with its fill
  colour and \<open>globalAlpha\<close>; \<open>fillText\<close> with its fill colour (the font is always
  \<open>14px Arial\<close>).
\<close>

datatype DrawOp =
    StrokeRect string real bool Box
  | FillRect string real Box
  | FillText string string real real

text \<open>
  A screenshot is a PNG data URL. It is read as the picture it encodes: the layers drawn
  into the compositing canvas, bottom first. The empty string is \<open>NoImage\<close>.
\<close>

datatype Layer = RendererCanvas | VideoFrame | OverlayCanvas "DrawOp list"

datatype DataUrl = NoImage | Png "Layer list"

record Annotation =
  annId :: string
  videoTime :: real
  screenshotDataUrl :: DataUrl
  "notes" :: string
  colour :: string
  grade :: "Score option"
  drops :: "Score option"
  riskIndex :: "real option"
  riskLevel :: "string option"
  primaryDescription :: "string option"
  secondaryDescription :: "string option"
  description :: "string option"
  defectNumber :: "nat option"
  worldDirection :: "WorldDirection option"
  box :: "Box option"
  createdAt :: string
  cameraRotation :: "CameraRotation option"
  label :: "string option"
  severity :: "real option"
  criticality :: "real option"

subsection \<open>The legacy migrator (storage.ts)\<close>



subsection \<open>The active set (AnnotationOverlay)\<close>

definition activeAnnotations :: "Annotation list \<Rightarrow> real \<Rightarrow> Annotation list" where
  "activeAnnotations annotations currentVideoTime =
     filter (\<lambda>ann. \<bar>videoTime ann - currentVideoTime\<bar> < 1) annotations"

section \<open>The overlay (AnnotationOverlay)\<close>

subsection \<open>State and surroundings\<close>

text \<open>
  The form data and the one-shot value \<open>pendingAnnotationForScreenshot\<close>. Their fields
  carry a prefix (\<open>form\<close>, \<open>pending\<close>), since they share their names with the fields of
  an annotation; \<open>pendingSize\<close> is the field \<open>box\<close>.
\<close>

record FormData =
  formNotes :: string
  formColour :: string
  formGrade :: Score
  formDrops :: Score
  formPrimaryDescription :: string
  formSecondaryDescription :: string
  formDescription :: string

record PendingAnnotation =
  pendingDirection :: WorldDirection
  pendingSize :: "Box option"
  pendingColour :: string
  pendingNotes :: string

text \<open>
  The props of the component and what it finds around it when a handler runs.
  \<open>onGetCamera\<close> and \<open>onGetCameraRotation\<close> are what the handler gets from
  \<open>onGetCamera ? onGetCamera() : null\<close>; \<open>canvasRef\<close> says that the overlay canvas and
  its 2D context exist; the last six fields are what \<open>captureScreenshot\<close> meets: whether
  \<open>findRendererCanvas\<close> finds the renderer canvas, whether the compositing canvas has a
  2D context, and which of the \<open>drawImage\<close> calls throw.
\<close>

record OverlayEnv =
  annotationMode :: bool
  currentVideoTime :: real
  videoElement :: bool
  annotations :: "Annotation list"
  width :: real
  height :: real
  disableInteractions :: bool
  onPauseVideo :: bool
  onGetCameraRotation :: "CameraRotation option"
  onGetCamera :: "PerspectiveCamera option"
  canvasRef :: bool
  rendererCanvas :: bool
  compositeContext :: bool
  rendererDrawThrows :: bool
  videoReady :: bool
  videoDrawThrows :: bool
  overlayDrawThrows :: bool

text \<open>
  The refs and the React state of the component, and what its handlers act on: the
  contents of the overlay canvas, whether the video is paused, the console, the alerts
  shown, and the annotations handed to \<open>onAnnotationCreate\<close> (without \<open>id\<close> and
  \<open>createdAt\<close>, which the caller adds: the two fields are empty here).
\<close>

record OverlayState =
  isDrawing :: bool
  startPos :: "real \<times> real"
  currentBox :: "Box option"
  showForm :: bool
  formData :: FormData
  pendingBox :: "Box option"
  pendingWorldDirection :: "WorldDirection option"
  isCapturingScreenshot :: bool
  pendingAnnotationForScreenshot :: "PendingAnnotation option"
  canvas :: "DrawOp list"
  videoPaused :: bool
  console :: "string list"
  alerts :: "string list"
  created :: "Annotation list"

definition initialFormData :: FormData where
  "initialFormData =
     \<lparr>formNotes = [], formColour = ''#ffffff'', formGrade = NA, formDrops = NA,
      formPrimaryDescription = [], formSecondaryDescription = [], formDescription = []\<rparr>"

subsection \<open>Colour and risk\<close>










subsection \<open>Drawing\<close>










subsection \<open>The drawing gesture\<close>

text \<open>
  The pointer handlers take the button of the event and its position relative to the
  canvas. \<open>pauseVideo\<close> is the call \<open>onPauseVideo()\<close> under its guard.
\<close>

definition pauseVideo :: "OverlayEnv \<Rightarrow> OverlayState \<Rightarrow> OverlayState" where
  "pauseVideo env s =
     (if onPauseVideo env \<and> videoElement env \<and> \<not> videoPaused s then s\<lparr>videoPaused := True\<rparr> else s)"



definition handleMouseUp :: "OverlayEnv \<Rightarrow> nat \<Rightarrow> OverlayState \<Rightarrow> OverlayState" where
  "handleMouseUp env button s =
     (if \<not> annotationMode env \<or> \<not> isDrawing s \<or> disableInteractions env \<or> button \<noteq> 2 then s
      else
        (let s1 = s\<lparr>isDrawing := False\<rparr>
         in case currentBox s1 of
              None \<Rightarrow> s1
            | Some cb \<Rightarrow>
                if \<not> canvasRef env then s1
                else
                  (let s2 = pauseVideo env s1
                   in case (onGetCamera env, onGetCameraRotation env) of
                        (Some camera, Some rotation) \<Rightarrow>
                          (case screenToWorldDirection
                                  (boxX cb + boxWidth cb / 2) (boxY cb + boxHeight cb / 2)
                                  (width env) (height env) camera rotation of
                             None \<Rightarrow>
                               s2\<lparr>console := console s2 @
                                    [''Failed to convert screen coordinates to world direction'']\<rparr>
                           | Some d \<Rightarrow>
                               s2\<lparr>pendingBox :=
                                    Some \<lparr>boxX = boxX cb / width env, boxY = boxY cb / height env,
                                          boxWidth = boxWidth cb / width env,
                                          boxHeight = boxHeight cb / height env\<rparr>,
                                  pendingWorldDirection := Some d,
                                  formData := initialFormData,
                                  showForm := True\<rparr>)
                      | _ \<Rightarrow>
                          s2\<lparr>console := console s2 @
                               [''Cannot create annotation: camera or camera rotation not available'']\<rparr>)))"

subsection \<open>Events between the steps of a handler\<close>





subsection \<open>The screenshot capture\<close>











section \<open>Concrete inputs\<close>

text \<open>
  The player's camera for a 1920 by 1080 viewport, before it is turned, and a stored
  annotation with only its required fields.
\<close>

definition playerCamera :: PerspectiveCamera where
  "playerCamera =
     \<lparr>fov = 75, aspect = 1920 / 1080, near = 1 / 10, far = 1000, matrixWorld = identityPose\<rparr>"

definition plainAnnotation :: Annotation where
  "plainAnnotation =
     \<lparr>annId = ''ann-1'', videoTime = 10, screenshotDataUrl = NoImage, notes = ''crack'',
      colour = ''#ff0000'', grade = None, drops = None, riskIndex = None, riskLevel = None,
      primaryDescription = None, secondaryDescription = None, description = None,
      defectNumber = None, worldDirection = None, box = None,
      createdAt = ''2024-01-01T00:00:00.000Z'', cameraRotation = None, label = None,
      severity = None, criticality = None\<rparr>"

definition centredBox :: Box where
  "centredBox = \<lparr>boxX = 45 / 100, boxY = 45 / 100, boxWidth = 1 / 10, boxHeight = 1 / 10\<rparr>"

text \<open>
  The overlay in annotation mode over the 1920 by 1080 viewport, with the video element,
  the pause callback and both canvases present, and no camera available; and the state in
  the middle of a drawing gesture, a rectangle dragged and the video playing again.
\<close>

definition overlayEnv :: OverlayEnv where
  "overlayEnv =
     \<lparr>annotationMode = True, currentVideoTime = 10, videoElement = True, annotations = [],
      width = 1920, height = 1080, disableInteractions = False, onPauseVideo = True,
      onGetCameraRotation = None, onGetCamera = None, canvasRef = True,
      rendererCanvas = True, compositeContext = True, rendererDrawThrows = False,
      videoReady = True, videoDrawThrows = False, overlayDrawThrows = False\<rparr>"

definition drawingState :: OverlayState where
  "drawingState =
     \<lparr>isDrawing = True, startPos = (100, 100),
      currentBox = Some \<lparr>boxX = 100, boxY = 100, boxWidth = 200, boxHeight = 100\<rparr>,
      showForm = False, formData = initialFormData, pendingBox = None,
      pendingWorldDirection = None, isCapturingScreenshot = False,
      pendingAnnotationForScreenshot = None,
      canvas = [StrokeRect ''#ffffff'' 2 True \<lparr>boxX = 100, boxY = 100, boxWidth = 200, boxHeight = 100\<rparr>],
      videoPaused = False, console = [], alerts = [], created = []\<rparr>"




section \<open>Facts about the numbers\<close>

lemma atan2_one: "atan2 v 1 = arctan v"
  by (simp add: atan2_def)

lemma half_fov_tan_pos:
  assumes "0 < f" "f < 180"
  shows "0 < tan (f * (pi / 180) / 2)"
proof -
  have "0 < f * (pi / 180) / 2" using assms by simp
  moreover have "f * (pi / 180) / 2 < pi / 2" using assms by simp
  ultimately show ?thesis by (rule tan_gt_zero)
qed




lemma unit_component_bounds:
  assumes "unitLength v"
  shows "- 1 \<le> vecY v" and "vecY v \<le> 1"
proof -
  have "0 \<le> vecX v * vecX v" and "0 \<le> vecZ v * vecZ v" by simp_all
  then have "vecY v * vecY v \<le> 1"
    using assms unfolding unitLength_def by linarith
  then have "(vecY v)\<^sup>2 \<le> 1" by (simp add: power2_eq_square)
  then have "\<bar>vecY v\<bar> \<le> 1" by (simp add: abs_square_le_1)
  then show "- 1 \<le> vecY v" and "vecY v \<le> 1" by linarith+
qed


lemma vecLength_unit: "unitLength v \<Longrightarrow> vecLength v = 1"
  by (simp add: unitLength_def vecLength_def)

lemma vecNormalize_unit: "unitLength v \<Longrightarrow> vecNormalize v = v"
  by (cases v) (simp add: vecNormalize_def vecLength_unit Let_def)

lemma unitLength_vecNormalize:
  assumes "vecLength v \<noteq> 0"
  shows "unitLength (vecNormalize v)"
proof -
  define q where "q = vecX v * vecX v + vecY v * vecY v + vecZ v * vecZ v"
  have q0: "0 \<le> q" by (simp add: q_def)
  have l: "vecLength v * vecLength v = q"
    using q0 by (simp add: vecLength_def q_def [symmetric])
  have "vecX v / vecLength v * (vecX v / vecLength v) + vecY v / vecLength v * (vecY v / vecLength v)
        + vecZ v / vecLength v * (vecZ v / vecLength v) = q / (vecLength v * vecLength v)"
    by (simp add: q_def add_divide_distrib)
  also have "\<dots> = 1" using assms l by auto
  finally show ?thesis
    using assms by (simp add: unitLength_def vecNormalize_def Let_def)
qed


section \<open>Facts about the camera\<close>








lemma projection_signs:
  assumes "validCamera cam"
  shows "0 < projX cam" and "0 < projY cam" and "projC cam < - 1" and "projD cam < 0"
proof -
  have n: "0 < near cam" "near cam < far cam" "0 < aspect cam"
    using assms by (simp_all add: validCamera_def)
  have "0 < tan (fov cam * (pi / 180) / 2)"
    using assms by (intro half_fov_tan_pos) (simp_all add: validCamera_def)
  then have top: "0 < frustumTop cam"
    using n by (simp add: frustumTop_def mult.commute)
  show "0 < projX cam" using top n by (simp add: projX_def)
  show "0 < projY cam" using top n by (simp add: projY_def)
  show "projC cam < - 1" using n by (simp add: projC_def field_simps)
  show "projD cam < 0" using n by (simp add: projD_def field_simps)
qed

lemma unproject_depth_pos:
  assumes "validCamera cam"
  shows "0 < (1 / 2 + projC cam) / projD cam"
proof -
  have "1 / 2 + projC cam < 0" using projection_signs(3) [OF assms] by simp
  then show ?thesis using projection_signs(4) [OF assms] by (simp add: divide_neg_neg)
qed






lemma playerCamera_valid: "validCamera playerCamera"
  by (simp add: validCamera_def playerCamera_def orthonormal_def identityPose_def dot_def)

lemma directionVector_behind: "directionVector \<lparr>phi = 0, theta = pi\<rparr> = Vector3 0 0 (- 1)"
  by (simp add: directionVector_def vecNormalize_def vecLength_def Let_def)

lemma playerCamera_centre:
  "worldDirectionToScreen \<lparr>phi = 0, theta = pi\<rparr> 1920 1080 playerCamera =
     Some \<lparr>pointX = 960, pointY = 540\<rparr>"
  by (simp add: worldDirectionToScreen_def directionVector_behind project_def
        applyProjection_def applyMatrixWorldInverse_def playerCamera_def identityPose_def
        dot_def Let_def projX_def projY_def projC_def projD_def)

lemma applyProjection_backward:
  assumes "validCamera cam"
  shows "\<exists>z. applyProjection cam (Vector3 0 0 1) = Some (Vector3 0 0 z) \<and> 1 < z"
proof -
  have n: "0 < near cam" "near cam < far cam"
    using assms by (simp_all add: validCamera_def)
  have "- projC cam = (far cam + near cam) / (far cam - near cam)"
    unfolding projC_def by (simp only: minus_divide_left [symmetric] minus_minus)
  moreover have "- projD cam = (2 * far cam * near cam) / (far cam - near cam)"
    unfolding projD_def by (simp only: minus_divide_left [symmetric] minus_minus)
  ultimately have "- projC cam - projD cam =
      (far cam + near cam + 2 * far cam * near cam) / (far cam - near cam)"
    by (simp add: add_divide_distrib)
  moreover have "far cam - near cam < far cam + near cam + 2 * far cam * near cam"
  proof -
    have "0 < far cam * near cam" using n by simp
    then show ?thesis using n by linarith
  qed
  ultimately have "1 < - projC cam - projD cam"
    using n by (simp add: less_divide_eq_1_pos)
  moreover have "applyProjection cam (Vector3 0 0 1) = Some (Vector3 0 0 (- projC cam - projD cam))"
    by (simp add: applyProjection_def Let_def)
  ultimately show ?thesis by blast
qed

lemma behind_camera_culled:
  assumes cam: "validCamera cam" and fwd: "cameraForward cam = lookTarget rot"
  shows "worldDirectionToScreen \<lparr>phi = - phi rot, theta = theta rot + pi\<rparr> w h cam = None"
proof -
  define m where "m = matrixWorld cam"
  have orth: "orthonormal m" using cam by (simp add: validCamera_def m_def)
  have colZ_eq: "colZ m = Vector3 (- (cos (phi rot) * sin (theta rot))) (- sin (phi rot))
                               (- (cos (phi rot) * cos (theta rot)))"
  proof -
    have "vecX (colZ m) = - vecX (lookTarget rot)" "vecY (colZ m) = - vecY (lookTarget rot)"
         "vecZ (colZ m) = - vecZ (lookTarget rot)"
      using fwd [symmetric] by (simp_all add: cameraForward_def m_def)
    then show ?thesis by (cases "colZ m") (simp add: lookTarget_def)
  qed
  have unit: "unitLength (colZ m)"
    using orth by (simp add: orthonormal_def unitLength_def dot_def)
  have "directionVector \<lparr>phi = - phi rot, theta = theta rot + pi\<rparr> = vecNormalize (colZ m)"
    by (simp add: directionVector_def colZ_eq sin_add cos_add)
  then have dv: "directionVector \<lparr>phi = - phi rot, theta = theta rot + pi\<rparr> = colZ m"
    by (simp add: vecNormalize_unit [OF unit])
  have "applyMatrixWorldInverse m (colZ m) = Vector3 0 0 1"
    using orth by (simp add: applyMatrixWorldInverse_def orthonormal_def)
  then have "project cam (colZ m) = applyProjection cam (Vector3 0 0 1)"
    by (simp add: project_def m_def)
  then obtain z where "project cam (colZ m) = Some (Vector3 0 0 z)" and "1 < z"
    using applyProjection_backward [OF cam] by auto
  then show ?thesis
    by (simp add: worldDirectionToScreen_def dv Let_def)
qed

lemma playerCamera_forward: "cameraForward playerCamera = lookTarget \<lparr>phi = 0, theta = pi\<rparr>"
  by (simp add: cameraForward_def lookTarget_def playerCamera_def identityPose_def)

lemma playerCamera_project_centre:
  "project playerCamera (directionVector \<lparr>phi = 0, theta = pi\<rparr>) =
     Some (Vector3 0 0 (8001 / 9999))"
  by (simp add: directionVector_behind project_def
        applyProjection_def applyMatrixWorldInverse_def playerCamera_def identityPose_def
        dot_def Let_def projX_def projY_def projC_def projD_def)

lemma atan2_negative:
  assumes "b < 0"
  shows "atan2 b a < 0"
proof -
  consider "0 < a" | "a < 0" | "a = 0" by linarith
  then show ?thesis
  proof cases
    case 1
    then have "b / a < 0" using assms by (simp add: divide_neg_pos)
    then show ?thesis using 1 by (simp add: atan2_def)
  next
    case 2
    have "arctan (b / a) < pi / 2" by (rule arctan_ubound)
    moreover have "pi / 2 < pi" using pi_gt_zero by simp
    ultimately have "arctan (b / a) - pi < 0" by linarith
    then show ?thesis using 2 assms by (simp add: atan2_def)
  next
    case 3
    then show ?thesis using assms by (simp add: atan2_def)
  qed
qed

lemma applyMatrixWorld_identity: "applyMatrixWorld identityPose c = c"
  by (cases c) (simp add: applyMatrixWorld_def identityPose_def)

lemma vecNormalize_sign:
  assumes "vecX u < 0"
  shows "vecX (vecNormalize u) < 0"
proof -
  have "0 \<le> vecLength u" by (simp add: vecLength_def)
  then have "0 < (if vecLength u = 0 then 1 else vecLength u)" by simp
  then show ?thesis using assms by (simp add: vecNormalize_def Let_def divide_neg_pos)
qed

lemma theta_negative_left:
  assumes cam: "validCamera cam" and pose: "matrixWorld cam = identityPose"
    and w: "0 < w" and sx: "sx < w / 2"
  shows "\<exists>d. screenToWorldDirection sx sy w h cam rot = Some d \<and> theta d < 0"
proof -
  define a where "a = (sx / w) * 2 - 1"
  have a: "a < 0" using w sx by (simp add: a_def field_simps)
  note sg = projection_signs [OF cam]
  have "a / projX cam < 0" using a sg(1) by (simp add: divide_neg_pos)
  then have "a / projX cam / ((1 / 2 + projC cam) / projD cam) < 0"
    using unproject_depth_pos [OF cam] by (rule divide_neg_pos)
  then have "vecX (setFromCamera a b cam) < 0" for b
    by (simp add: setFromCamera_def unproject_def Let_def pose applyMatrixWorld_identity
          vecNormalize_sign add.commute)
  then have "vecX (vecNormalize (setFromCamera a b cam)) < 0" for b
    by (rule vecNormalize_sign)
  then show ?thesis
    by (simp add: screenToWorldDirection_def Let_def a_def atan2_negative)
qed

lemma vecNormalize_component_bounds:
  "- 1 \<le> vecY (vecNormalize v) \<and> vecY (vecNormalize v) \<le> 1"
proof (cases "vecLength v = 0")
  case True
  then have "vecX v * vecX v + vecY v * vecY v + vecZ v * vecZ v = 0"
    by (simp add: vecLength_def)
  moreover have "0 \<le> vecX v * vecX v" "0 \<le> vecY v * vecY v" "0 \<le> vecZ v * vecZ v" by simp_all
  ultimately have "vecY v * vecY v = 0" by linarith
  then show ?thesis using True by (simp add: vecNormalize_def Let_def)
next
  case False
  then have "unitLength (vecNormalize v)" by (rule unitLength_vecNormalize)
  then show ?thesis using unit_component_bounds by blast
qed

section \<open>Facts about the overlay\<close>
















section \<open>The legacy migrator\<close>




section \<open>The legacy box approximation\<close>

text \<open>
  C3, as the code has it. With \<open>ndcX = (x + width / 2 - 0.5) * 2\<close>,
  \<open>ndcY = -(y + height / 2 - 0.5) * 2\<close> and \<open>fov\<close> the radians of 75 degrees, a box
  with a recorded camera rotation gives
  \<open>theta = rotation.theta + arctan ndcX * (fov / 2)\<close> and
  \<open>phi = rotation.phi + arctan ndcY * (fov / 2)\<close> clamped to \<open>[-\<pi>/2, \<pi>/2]\<close>: the offset is
  the arc tangent of the normalized coordinate times half the field of view, not the
  coordinate itself times half the field of view. A box with no recorded rotation gives
  \<open>{phi: 0, theta: 0}\<close>, and so does the box \<open>{x: 0.45, y: 0.45, width: 0.1, height: 0.1}\<close>
  with no rotation.
\<close>

theorem legacyBoxToWorldDirection_contract:
  "legacyBoxToWorldDirection b (Some rot) =
     \<lparr>phi = max (- pi / 2) (min (pi / 2)
              (phi rot + arctan (- (boxY b + boxHeight b / 2 - 1 / 2) * 2) * (75 * (pi / 180) / 2))),
      theta = theta rot + arctan ((boxX b + boxWidth b / 2 - 1 / 2) * 2) * (75 * (pi / 180) / 2)\<rparr> \<and>
   legacyBoxToWorldDirection b None = \<lparr>phi = 0, theta = 0\<rparr> \<and>
   legacyBoxToWorldDirection
     \<lparr>boxX = 45 / 100, boxY = 45 / 100, boxWidth = 1 / 10, boxHeight = 1 / 10\<rparr> None =
     \<lparr>phi = 0, theta = 0\<rparr>"
  by (simp add: legacyBoxToWorldDirection_def atan2_one Let_def)

text \<open>
  The claim's formula \<open>theta = rotation.theta + ndcX * (fov / 2)\<close> fails for the box
  \<open>{x: 0.95, y: 0.45, width: 0.1, height: 0.1}\<close> recorded at rotation \<open>{phi: 0, theta: 0}\<close>:
  its \<open>ndcX\<close> is 1, and the code returns \<open>theta = (\<pi>/4) * (fov / 2)\<close>.
\<close>

theorem legacyBoxToWorldDirection_small_angle_counterexample:
  "theta (legacyBoxToWorldDirection
            \<lparr>boxX = 95 / 100, boxY = 45 / 100, boxWidth = 1 / 10, boxHeight = 1 / 10\<rparr>
            (Some \<lparr>phi = 0, theta = 0\<rparr>))
     \<noteq> 0 + ((95 / 100 + (1 / 10) / 2 - 1 / 2) * 2) * (75 * (pi / 180) / 2)"
proof -
  have "pi / 4 \<noteq> (1::real)" using pi_less_4 by simp
  then show ?thesis
    by (simp add: legacyBoxToWorldDirection_def atan2_one Let_def arctan_one)
qed

section \<open>The active set\<close>

text \<open>
  C8, as the code has it. An annotation is in the active set exactly when it is one of
  the annotations and its video time is strictly less than 1.0 s away from the playback
  time; an annotation exactly 1.0 s away is not active. With annotations at 10.0 s and
  12.5 s and the playback time 10.4 s, the active set is the first annotation alone.
\<close>

theorem activeAnnotations_membership:
  "(ann \<in> set (activeAnnotations anns t) \<longleftrightarrow>
      ann \<in> set anns \<and> \<bar>videoTime ann - t\<bar> < 1) \<and>
   activeAnnotations [a\<lparr>videoTime := 10\<rparr>, b\<lparr>videoTime := 25 / 2\<rparr>] (104 / 10) =
     [a\<lparr>videoTime := 10\<rparr>]"
  by (auto simp: activeAnnotations_def)

text \<open>
  An annotation at 11.0 s is within the window of plus or minus 1.0 s around the playback
  time 10.0 s, and is not in the active set.
\<close>

theorem activeAnnotations_boundary_counterexample:
  "\<bar>videoTime (plainAnnotation\<lparr>videoTime := 11\<rparr>) - 10\<bar> \<le> 1 \<and>
   plainAnnotation\<lparr>videoTime := 11\<rparr>
     \<notin> set (activeAnnotations [plainAnnotation\<lparr>videoTime := 11\<rparr>] 10)"
  by (simp add: activeAnnotations_def)

section \<open>Pointer to direction\<close>

text \<open>
  C10. For every pointer position, viewport size, camera and camera rotation,
  \<open>screenToWorldDirection\<close> returns a direction and never \<open>null\<close>.
\<close>

theorem screenToWorldDirection_total:
  "(\<exists>d. screenToWorldDirection sx sy w h cam rot = Some d) \<and>
   screenToWorldDirection sx sy w h cam rot \<noteq> None"
  by (simp add: screenToWorldDirection_def Let_def)

section \<open>The round trip\<close>




section \<open>The annotation box\<close>

text \<open>
  C7. For a camera with a field of view between 0 and 180 degrees and a viewport of
  height 0 or more, \<open>getAnnotationBox\<close> returns \<open>null\<close> exactly when
  \<open>worldDirectionToScreen\<close> does. Otherwise it returns a box whose centre is the
  projected point and whose width and height are both
  \<open>max(20, s * (\<pi>/180) * H / (2 * tan(fovRadians / 2)))\<close>; so each edge is at least 20
  pixels, and a larger \<open>boxSizeDegrees\<close> never gives a smaller box.
\<close>

theorem getAnnotationBox_contract:
  assumes "0 < fov cam" and "fov cam < 180" and "0 \<le> h"
  shows "(getAnnotationBox d w h cam s = None \<longleftrightarrow> worldDirectionToScreen d w h cam = None) \<and>
   (\<forall>c. worldDirectionToScreen d w h cam = Some c \<longrightarrow>
      (\<exists>b. getAnnotationBox d w h cam s = Some b \<and>
         boxX b + boxWidth b / 2 = pointX c \<and> boxY b + boxHeight b / 2 = pointY c \<and>
         boxWidth b = max 20 (s * (pi / 180) * h / (2 * tan (fov cam * (pi / 180) / 2))) \<and>
         boxHeight b = max 20 (s * (pi / 180) * h / (2 * tan (fov cam * (pi / 180) / 2))))) \<and>
   (\<forall>b. getAnnotationBox d w h cam s = Some b \<longrightarrow> 20 \<le> boxWidth b \<and> 20 \<le> boxHeight b) \<and>
   (\<forall>s' b b'. s \<le> s' \<and> getAnnotationBox d w h cam s = Some b \<and>
       getAnnotationBox d w h cam s' = Some b' \<longrightarrow>
       boxWidth b \<le> boxWidth b' \<and> boxHeight b \<le> boxHeight b')"
proof -
  define ppr where "ppr = h / (2 * tan (fov cam * (pi / 180) / 2))"
  define edge where "edge = (\<lambda>q::real. max 20 (q * (pi / 180) * ppr))"
  have tpos: "0 < tan (fov cam * (pi / 180) / 2)"
    using assms(1,2) by (rule half_fov_tan_pos)
  have ppr: "0 \<le> ppr"
    using tpos assms(3) by (simp add: ppr_def)
  have mono: "edge q \<le> edge q'" if "q \<le> q'" for q q'
  proof -
    have "q * (pi / 180) * ppr \<le> q' * (pi / 180) * ppr"
      using that ppr by (intro mult_right_mono) simp_all
    then show ?thesis unfolding edge_def by (rule max.mono [OF order_refl])
  qed
  have floor: "20 \<le> edge q" for q by (simp add: edge_def)
  have formula: "edge q = max 20 (q * (pi / 180) * h / (2 * tan (fov cam * (pi / 180) / 2)))" for q
    by (simp add: edge_def ppr_def)
  have run: "getAnnotationBox d w h cam q =
      (case worldDirectionToScreen d w h cam of None \<Rightarrow> None
       | Some c \<Rightarrow> Some \<lparr>boxX = pointX c - edge q / 2, boxY = pointY c - edge q / 2,
                          boxWidth = edge q, boxHeight = edge q\<rparr>)" for q
    by (simp add: getAnnotationBox_def Let_def edge_def ppr_def split: option.splits)
  show ?thesis
  proof (cases "worldDirectionToScreen d w h cam")
    case None
    then show ?thesis by (simp add: run)
  next
    case (Some c)
    then show ?thesis using mono floor formula
      by (simp add: run)
  qed
qed


theorem getAnnotationBox_contract_witness:
  "0 < fov playerCamera \<and> fov playerCamera < 180 \<and> (0::real) \<le> 1080 \<and>
   worldDirectionToScreen \<lparr>phi = 0, theta = pi\<rparr> 1920 1080 playerCamera =
     Some \<lparr>pointX = 960, pointY = 540\<rparr> \<and>
   (\<exists>b. getAnnotationBox \<lparr>phi = 0, theta = pi\<rparr> 1920 1080 playerCamera 5 = Some b \<and>
      boxX b + boxWidth b / 2 = 960 \<and> boxY b + boxHeight b / 2 = 540 \<and>
      20 \<le> boxWidth b \<and> 20 \<le> boxHeight b) \<and>
   (\<exists>b b'. (5::real) \<le> 10 \<and>
      getAnnotationBox \<lparr>phi = 0, theta = pi\<rparr> 1920 1080 playerCamera 5 = Some b \<and>
      getAnnotationBox \<lparr>phi = 0, theta = pi\<rparr> 1920 1080 playerCamera 10 = Some b' \<and>
      boxWidth b \<le> boxWidth b' \<and> boxHeight b \<le> boxHeight b')"
proof -
  have f: "0 < fov playerCamera" "fov playerCamera < 180" by (simp_all add: playerCamera_def)
  have h: "(0::real) \<le> 1080" by simp
  note c = getAnnotationBox_contract [OF f h, of "\<lparr>phi = 0, theta = pi\<rparr>" 1920]
  obtain b where b: "getAnnotationBox \<lparr>phi = 0, theta = pi\<rparr> 1920 1080 playerCamera 5 = Some b"
      "boxX b + boxWidth b / 2 = 960" "boxY b + boxHeight b / 2 = 540"
    using c [of 5] playerCamera_centre by auto
  obtain b' where b': "getAnnotationBox \<lparr>phi = 0, theta = pi\<rparr> 1920 1080 playerCamera 10 = Some b'"
    using c [of 10] playerCamera_centre by auto
  have "20 \<le> boxWidth b \<and> 20 \<le> boxHeight b" using c [of 5] b(1) by blast
  moreover have "boxWidth b \<le> boxWidth b' \<and> boxHeight b \<le> boxHeight b'"
  proof -
    have "\<forall>s' b b'. 5 \<le> s' \<and>
        getAnnotationBox \<lparr>phi = 0, theta = pi\<rparr> 1920 1080 playerCamera 5 = Some b \<and>
        getAnnotationBox \<lparr>phi = 0, theta = pi\<rparr> 1920 1080 playerCamera s' = Some b' \<longrightarrow>
        boxWidth b \<le> boxWidth b' \<and> boxHeight b \<le> boxHeight b'"
      using c [of 5] by (elim conjE)
    from this [rule_format, of 10 b b'] b(1) b' show ?thesis by simp
  qed
  ultimately show ?thesis using f h playerCamera_centre b b' by auto
qed


section \<open>Culling\<close>

text \<open>
  C4. For a camera with a field of view between 0 and 180 degrees, a positive aspect
  ratio, \<open>0 < near < far\<close> and an orthonormal pose, \<open>worldDirectionToScreen\<close> returns
  \<open>null\<close> exactly when the projection of the direction has clip-space \<open>z > 1\<close>, or
  \<open>|x| > 3\<close>, or \<open>|y| > 3\<close> (a direction in the camera's own plane has infinite clip
  coordinates and is culled as well). Otherwise it returns the pixel
  \<open>x = (clipX + 1) * W / 2\<close>, \<open>y = (-clipY + 1) * H / 2\<close>. A direction opposite to the
  camera's forward vector (\<open>theta = forwardTheta + \<pi>\<close>, \<open>phi = -forwardPhi\<close>) always
  gives \<open>null\<close>.
\<close>

theorem worldDirectionToScreen_culling:
  assumes "validCamera cam"
  shows "(worldDirectionToScreen d w h cam = None \<longleftrightarrow>
            (case project cam (directionVector d) of
               None \<Rightarrow> True
             | Some v \<Rightarrow> vecZ v > 1 \<or> \<bar>vecX v\<bar> > 3 \<or> \<bar>vecY v\<bar> > 3)) \<and>
         (\<forall>v. project cam (directionVector d) = Some v \<and>
               \<not> (vecZ v > 1 \<or> \<bar>vecX v\<bar> > 3 \<or> \<bar>vecY v\<bar> > 3) \<longrightarrow>
               worldDirectionToScreen d w h cam =
                 Some \<lparr>pointX = (vecX v + 1) * w / 2, pointY = (- vecY v + 1) * h / 2\<rparr>) \<and>
         (\<forall>rot. cameraForward cam = lookTarget rot \<longrightarrow>
               worldDirectionToScreen \<lparr>phi = - phi rot, theta = theta rot + pi\<rparr> w h cam = None)"
proof (intro conjI allI impI)
  show "worldDirectionToScreen d w h cam = None \<longleftrightarrow>
          (case project cam (directionVector d) of
             None \<Rightarrow> True
           | Some v \<Rightarrow> vecZ v > 1 \<or> \<bar>vecX v\<bar> > 3 \<or> \<bar>vecY v\<bar> > 3)"
    by (simp add: worldDirectionToScreen_def Let_def split: option.splits)
next
  fix v
  assume "project cam (directionVector d) = Some v \<and>
          \<not> (vecZ v > 1 \<or> \<bar>vecX v\<bar> > 3 \<or> \<bar>vecY v\<bar> > 3)"
  then show "worldDirectionToScreen d w h cam =
               Some \<lparr>pointX = (vecX v + 1) * w / 2, pointY = (- vecY v + 1) * h / 2\<rparr>"
    by (simp add: worldDirectionToScreen_def Let_def)
next
  fix rot
  assume "cameraForward cam = lookTarget rot"
  with assms show "worldDirectionToScreen \<lparr>phi = - phi rot, theta = theta rot + pi\<rparr> w h cam = None"
    by (rule behind_camera_culled)
qed

theorem worldDirectionToScreen_culling_witness:
  "validCamera playerCamera \<and>
   project playerCamera (directionVector \<lparr>phi = 0, theta = pi\<rparr>) = Some (Vector3 0 0 (8001 / 9999)) \<and>
   worldDirectionToScreen \<lparr>phi = 0, theta = pi\<rparr> 1920 1080 playerCamera =
     Some \<lparr>pointX = 960, pointY = 540\<rparr> \<and>
   cameraForward playerCamera = lookTarget \<lparr>phi = 0, theta = pi\<rparr> \<and>
   worldDirectionToScreen \<lparr>phi = - 0, theta = pi + pi\<rparr> 1920 1080 playerCamera = None"
  using worldDirectionToScreen_culling [OF playerCamera_valid, of "\<lparr>phi = 0, theta = pi\<rparr>" 1920 1080]
        playerCamera_valid playerCamera_forward playerCamera_project_centre
  by auto

section \<open>The range of the angles\<close>

text \<open>
  The pitch of every direction that \<open>screenToWorldDirection\<close> and
  \<open>legacyBoxToWorldDirection\<close> produce lies between \<open>-\<pi>/2\<close> and \<open>\<pi>/2\<close>: the first is
  the arc sine of a component of a normalized vector, the second is clamped (or 0).
\<close>

theorem worldDirection_phi_in_range:
  "(\<exists>d. screenToWorldDirection sx sy w h cam rot = Some d \<and>
        - (pi / 2) \<le> phi d \<and> phi d \<le> pi / 2) \<and>
   - (pi / 2) \<le> phi (legacyBoxToWorldDirection b pose) \<and>
   phi (legacyBoxToWorldDirection b pose) \<le> pi / 2"
proof (intro conjI)
  show "\<exists>d. screenToWorldDirection sx sy w h cam rot = Some d \<and>
        - (pi / 2) \<le> phi d \<and> phi d \<le> pi / 2"
  proof -
    define y where "y = vecY (vecNormalize (setFromCamera ((sx / w) * 2 - 1) (- (sy / h) * 2 + 1) cam))"
    have "- 1 \<le> y" and "y \<le> 1"
      using vecNormalize_component_bounds by (simp_all add: y_def)
    then have "- (pi / 2) \<le> arcsin y \<and> arcsin y \<le> pi / 2" by (rule arcsin_bounded)
    then show ?thesis
      unfolding screenToWorldDirection_def Let_def y_def by simp
  qed
  have range: "- (pi / 2) \<le> max (- pi / 2) (min (pi / 2) q) \<and>
               max (- pi / 2) (min (pi / 2) q) \<le> pi / 2" for q
  proof -
    have "- pi / 2 \<le> pi / 2" using pi_ge_zero by simp
    then show ?thesis by (simp add: max_def min_def)
  qed
  have zero: "- (pi / 2) \<le> 0 \<and> (0::real) \<le> pi / 2" using pi_ge_zero by simp
  show "- (pi / 2) \<le> phi (legacyBoxToWorldDirection b pose)"
    using range zero by (cases pose) (simp_all add: legacyBoxToWorldDirection_def Let_def)
  show "phi (legacyBoxToWorldDirection b pose) \<le> pi / 2"
    using range zero by (cases pose) (simp_all add: legacyBoxToWorldDirection_def Let_def)
qed

text \<open>
  C5. The yaw of a direction the geometry layer produces can be negative, outside the
  documented range from 0 to \<open>2\<pi>\<close>. For the player's camera before it is turned, a
  pointer at \<open>(480, 540)\<close> of the 1920 by 1080 viewport (left of the centre) gives a
  negative \<open>theta\<close>, as \<open>Math.atan2\<close> returns an angle in \<open>(-\<pi>, \<pi>]\<close>; and the legacy
  box \<open>{x: 0.45, y: 0.45, width: 0.1, height: 0.1}\<close> recorded at camera rotation
  \<open>{phi: 0, theta: -1}\<close> gives \<open>theta = -1\<close>, as the recorded yaw is passed on as it is.
\<close>

theorem worldDirection_theta_out_of_range:
  "(\<exists>d. screenToWorldDirection 480 540 1920 1080 playerCamera \<lparr>phi = 0, theta = 0\<rparr> = Some d \<and>
        theta d < 0) \<and>
   theta (legacyBoxToWorldDirection centredBox (Some \<lparr>phi = 0, theta = - 1\<rparr>)) = - 1"
proof
  have "matrixWorld playerCamera = identityPose" by (simp add: playerCamera_def)
  then show "\<exists>d. screenToWorldDirection 480 540 1920 1080 playerCamera \<lparr>phi = 0, theta = 0\<rparr> = Some d \<and>
        theta d < 0"
    by (intro theta_negative_left playerCamera_valid) simp_all
  show "theta (legacyBoxToWorldDirection centredBox (Some \<lparr>phi = 0, theta = - 1\<rparr>)) = - 1"
    by (simp add: legacyBoxToWorldDirection_def centredBox_def atan2_one Let_def)
qed


section \<open>Releasing the drawing gesture without a camera\<close>

text \<open>
  C9, as the code has it. When the drawing gesture is released and the camera or the
  camera rotation is not available, nothing is created: the pending box, the pending
  world direction, the form and its data, the capture state, the canvas, the alerts and
  the annotations handed on for persisting are what they were, and the drawing flag is
  down. The state changes in at most three places: the drawing flag; the console, which
  gets the one message "Cannot create annotation: camera or camera rotation not
  available" (when a rectangle had been dragged and the canvas exists), or nothing; and
  the video, which \<open>onPauseVideo\<close> pauses if it was playing.
\<close>

theorem handleMouseUp_abort:
  assumes "onGetCamera env = None \<or> onGetCameraRotation env = None"
  shows "pendingBox (handleMouseUp env button s) = pendingBox s \<and>
         pendingWorldDirection (handleMouseUp env button s) = pendingWorldDirection s \<and>
         showForm (handleMouseUp env button s) = showForm s \<and>
         formData (handleMouseUp env button s) = formData s \<and>
         pendingAnnotationForScreenshot (handleMouseUp env button s) =
           pendingAnnotationForScreenshot s \<and>
         isCapturingScreenshot (handleMouseUp env button s) = isCapturingScreenshot s \<and>
         created (handleMouseUp env button s) = created s \<and>
         alerts (handleMouseUp env button s) = alerts s \<and>
         canvas (handleMouseUp env button s) = canvas s \<and>
         (annotationMode env \<and> isDrawing s \<and> \<not> disableInteractions env \<and> button = 2 \<longrightarrow>
            \<not> isDrawing (handleMouseUp env button s)) \<and>
         (console (handleMouseUp env button s) = console s \<or>
          console (handleMouseUp env button s) =
            console s @ [''Cannot create annotation: camera or camera rotation not available'']) \<and>
         (videoPaused (handleMouseUp env button s) = videoPaused s \<or>
          onPauseVideo env \<and> videoElement env \<and> \<not> videoPaused s \<and>
          videoPaused (handleMouseUp env button s)) \<and>
         handleMouseUp env button s =
           s\<lparr>isDrawing := isDrawing (handleMouseUp env button s),
             videoPaused := videoPaused (handleMouseUp env button s),
             console := console (handleMouseUp env button s)\<rparr>"
  using assms
  by (auto simp: handleMouseUp_def pauseVideo_def Let_def split: option.splits)

theorem handleMouseUp_abort_witness:
  "(onGetCamera overlayEnv = None \<or> onGetCameraRotation overlayEnv = None) \<and>
   annotationMode overlayEnv \<and> isDrawing drawingState \<and> \<not> disableInteractions overlayEnv \<and>
   (2::nat) = 2 \<and>
   \<not> isDrawing (handleMouseUp overlayEnv 2 drawingState) \<and>
   pendingBox (handleMouseUp overlayEnv 2 drawingState) = None \<and>
   pendingWorldDirection (handleMouseUp overlayEnv 2 drawingState) = None \<and>
   \<not> showForm (handleMouseUp overlayEnv 2 drawingState) \<and>
   created (handleMouseUp overlayEnv 2 drawingState) = [] \<and>
   console (handleMouseUp overlayEnv 2 drawingState) =
     [''Cannot create annotation: camera or camera rotation not available'']"
  using handleMouseUp_abort [of overlayEnv 2 drawingState]
  by (simp add: overlayEnv_def drawingState_def handleMouseUp_def pauseVideo_def Let_def)

text \<open>
  The claim's "the only effect is a log message" fails when the video is playing at the
  release (the space bar resumes it during a drag): the handler pauses it before it looks
  for the camera.
\<close>

theorem handleMouseUp_pauses_video_counterexample:
  "onGetCamera overlayEnv = None \<and>
   handleMouseUp overlayEnv 2 drawingState \<noteq>
     drawingState\<lparr>isDrawing := False,
                  console := console drawingState @
                    [''Cannot create annotation: camera or camera rotation not available'']\<rparr> \<and>
   \<not> videoPaused drawingState \<and> videoPaused (handleMouseUp overlayEnv 2 drawingState)"
  by (simp add: overlayEnv_def drawingState_def handleMouseUp_def pauseVideo_def Let_def)

section \<open>The screenshot capture\<close>





end
